theory Spec2Isabelle
  imports Complex_Main
begin

section \<open>Python values and exceptions\<close>

text \<open>
  The program is the class \<open>StatisticsCalculator\<close> of \<open>MultiParadigmPython.py\<close>.
  Python's unbounded integers are \<open>int\<close>. Python's floats are modelled by the reals:
  every arithmetic operation is exact, so rounding, infinities and the \<open>OverflowError\<close>
  of a conversion beyond the range of a double are outside this model; \<open>math.sqrt\<close>
  is the real square root.

  An exception is a value of type \<open>error\<close>. The class only ever raises \<open>ValueError\<close>
  itself, with a message; the other constructors are the exceptions that the Python
  operations it uses (indexing, true division, dictionary lookup, subtraction on a
  non-number) would raise.
\<close>

datatype error =
    ValueError string
  | ZeroDivisionError
  | IndexError
  | KeyError
  | TypeError

text \<open>The exception class of an error, the name Python gives for \<open>type(e).__name__\<close>.\<close>

fun exc_type :: "error \<Rightarrow> string" where
  "exc_type (ValueError msg) = ''ValueError''"
| "exc_type ZeroDivisionError = ''ZeroDivisionError''"
| "exc_type IndexError = ''IndexError''"
| "exc_type KeyError = ''KeyError''"
| "exc_type TypeError = ''TypeError''"

text \<open>The values stored in the cache and in the summary dictionary.\<close>

datatype pyval = PNone | PInt int | PFloat real | PList "int list"

text \<open>\<open>xs[i]\<close>: a negative index counts from the end, an index out of range raises.\<close>

definition py_index :: "'a list \<Rightarrow> int \<Rightarrow> error + 'a" where
  "py_index xs i =
     (if 0 \<le> i \<and> i < int (length xs) then Inr (xs ! nat i)
      else if i < 0 \<and> - int (length xs) \<le> i then Inr (xs ! nat (int (length xs) + i))
      else Inl IndexError)"

text \<open>\<open>a / b\<close> on numbers: true division.\<close>

definition py_truediv :: "real \<Rightarrow> real \<Rightarrow> error + real" where
  "py_truediv a b = (if b = 0 then Inl ZeroDivisionError else Inr (a / b))"

text \<open>\<open>math.sqrt\<close> raises a \<open>ValueError\<close> on a negative argument.\<close>

definition py_sqrt :: "real \<Rightarrow> error + real" where
  "py_sqrt x = (if x < 0 then Inl (ValueError ''math domain error'') else Inr (sqrt x))"

text \<open>\<open>max\<close> of a sequence raises a \<open>ValueError\<close> on the empty sequence.\<close>

fun py_max :: "nat list \<Rightarrow> error + nat" where
  "py_max [] = Inl (ValueError ''max() arg is an empty sequence'')"
| "py_max (x # xs) = Inr (foldl max x xs)"

text \<open>\<open>x - m\<close> for an integer \<open>x\<close>: \<open>m\<close> has to be a number.\<close>

fun py_sub :: "int \<Rightarrow> pyval \<Rightarrow> error + real" where
  "py_sub x (PFloat m) = Inr (real_of_int x - m)"
| "py_sub x (PInt m) = Inr (real_of_int (x - m))"
| "py_sub x PNone = Inl TypeError"
| "py_sub x (PList ms) = Inl TypeError"

text \<open>
  \<open>collections.Counter\<close>: a dictionary from value to number of occurrences, in the
  order of first occurrence. It is an association list whose keys are distinct.
\<close>

fun counter_add :: "int \<Rightarrow> (int \<times> nat) list \<Rightarrow> (int \<times> nat) list" where
  "counter_add x [] = [(x, 1)]"
| "counter_add x ((k, c) # kcs) =
     (if k = x then (k, c + 1) # kcs else (k, c) # counter_add x kcs)"

definition Counter :: "int list \<Rightarrow> (int \<times> nat) list" where
  "Counter xs = foldl (\<lambda>acc x. counter_add x acc) [] xs"

section \<open>The calculator\<close>

text \<open>
  The three attributes of the object: \<open>_data\<close>, \<open>_sorted_data\<close> (\<open>None\<close> until it is
  computed) and \<open>_cache\<close>, a dictionary from statistic name to value. Lists are
  values here: the model covers the methods of the class, not a caller that mutates
  the list object it passed in or got back.
\<close>

record calc =
  data :: "int list"
  sorted_data :: "int list option"
  cache :: "string \<rightharpoonup> pyval"

definition init :: "int list option \<Rightarrow> calc" where
  "init d =
     \<lparr>data = (case d of None \<Rightarrow> [] | Some xs \<Rightarrow> xs), sorted_data = None, cache = Map.empty\<rparr>"

subsection \<open>Mutators\<close>

definition set_data :: "calc \<Rightarrow> int list \<Rightarrow> calc" where
  "set_data s new_data = s\<lparr>data := new_data, sorted_data := None, cache := Map.empty\<rparr>"

definition add_value :: "calc \<Rightarrow> int \<Rightarrow> calc" where
  "add_value s v = s\<lparr>data := data s @ [v], sorted_data := None, cache := Map.empty\<rparr>"

definition add_values :: "calc \<Rightarrow> int list \<Rightarrow> calc" where
  "add_values s vs = s\<lparr>data := data s @ vs, sorted_data := None, cache := Map.empty\<rparr>"

definition clear_data :: "calc \<Rightarrow> calc" where
  "clear_data s = s\<lparr>data := [], sorted_data := None, cache := Map.empty\<rparr>"

subsection \<open>Readers\<close>

text \<open>
  A reader returns its result, a value or the exception it raised, together with the
  state it leaves behind: an exception does not undo the assignments made before it.
\<close>

definition get_sorted_data :: "calc \<Rightarrow> int list \<times> calc" where
  "get_sorted_data s =
     (case sorted_data s of
        None \<Rightarrow> (sort (data s), s\<lparr>sorted_data := Some (sort (data s))\<rparr>)
      | Some sd \<Rightarrow> (sd, s))"

text \<open>\<open>return self._cache[key]\<close>\<close>

definition cache_get :: "string \<Rightarrow> calc \<Rightarrow> (error + pyval) \<times> calc" where
  "cache_get key s = (case cache s key of None \<Rightarrow> (Inl KeyError, s) | Some v \<Rightarrow> (Inr v, s))"

text \<open>\<open>self._cache[key] = v\<close>\<close>

definition cache_put :: "string \<Rightarrow> pyval \<Rightarrow> calc \<Rightarrow> calc" where
  "cache_put key v s = s\<lparr>cache := (cache s)(key \<mapsto> v)\<rparr>"

definition mean :: "calc \<Rightarrow> (error + pyval) \<times> calc" where
  "mean s =
     (if cache s ''mean'' = None then
        (if data s = [] then (Inl (ValueError ''Cannot calculate mean: data is empty''), s)
         else (case py_truediv (real_of_int (sum_list (data s))) (real (length (data s))) of
                 Inl e \<Rightarrow> (Inl e, s)
               | Inr v \<Rightarrow> cache_get ''mean'' (cache_put ''mean'' (PFloat v) s)))
      else cache_get ''mean'' s)"

text \<open>The body of \<open>median\<close> once the sorted list is at hand.\<close>

definition median_of_sorted :: "int list \<Rightarrow> error + real" where
  "median_of_sorted sd =
     (let n = int (length sd); mid = n div 2 in
      if n mod 2 = 0 then
        (case py_index sd (mid - 1) of
           Inl e \<Rightarrow> Inl e
         | Inr a \<Rightarrow>
             (case py_index sd mid of
                Inl e \<Rightarrow> Inl e
              | Inr b \<Rightarrow> py_truediv (real_of_int (a + b)) 2))
      else
        (case py_index sd mid of
           Inl e \<Rightarrow> Inl e
         | Inr a \<Rightarrow> Inr (real_of_int a)))"

definition median :: "calc \<Rightarrow> (error + pyval) \<times> calc" where
  "median s =
     (if cache s ''median'' = None then
        (if data s = [] then (Inl (ValueError ''Cannot calculate median: data is empty''), s)
         else (case get_sorted_data s of
                 (sd, s1) \<Rightarrow>
                   (case median_of_sorted sd of
                      Inl e \<Rightarrow> (Inl e, s1)
                    | Inr v \<Rightarrow> cache_get ''median'' (cache_put ''median'' (PFloat v) s1))))
      else cache_get ''median'' s)"

text \<open>The body of \<open>mode\<close>: count, take the maximum frequency, filter, sort.\<close>

definition modes_of :: "int list \<Rightarrow> error + int list" where
  "modes_of d =
     (let freq_counter = Counter d in
      case py_max (map snd freq_counter) of
        Inl e \<Rightarrow> Inl e
      | Inr max_freq \<Rightarrow>
          Inr (sort (map fst (filter (\<lambda>(v, freq). freq = max_freq) freq_counter))))"

definition mode :: "calc \<Rightarrow> (error + pyval) \<times> calc" where
  "mode s =
     (if cache s ''mode'' = None then
        (if data s = [] then (Inl (ValueError ''Cannot calculate mode: data is empty''), s)
         else (case modes_of (data s) of
                 Inl e \<Rightarrow> (Inl e, s)
               | Inr modes \<Rightarrow> cache_get ''mode'' (cache_put ''mode'' (PList modes) s)))
      else cache_get ''mode'' s)"

text \<open>
  \<open>sum((x - mean_val) ** 2 for x in self._data)\<close>: the first subtraction that fails
  ends the sum. Addition of reals is associative, so the order of the additions is
  not kept.
\<close>

fun sum_sq_dev :: "int list \<Rightarrow> pyval \<Rightarrow> error + real" where
  "sum_sq_dev [] m = Inr 0"
| "sum_sq_dev (x # xs) m =
     (case py_sub x m of
        Inl e \<Rightarrow> Inl e
      | Inr dev \<Rightarrow>
          (case sum_sq_dev xs m of
             Inl e \<Rightarrow> Inl e
           | Inr r \<Rightarrow> Inr (dev ^ 2 + r)))"

text \<open>
  The four ways through the guards of \<open>standard_deviation\<close>, in the order of the
  source: the empty check, the \<open>population and n == 0\<close> check, the \<open>not population and
  n < 2\<close> check, and the computation.
\<close>

datatype sd_branch = SD_empty | SD_zero | SD_insufficient | SD_compute

definition sd_branch_taken :: "calc \<Rightarrow> bool \<Rightarrow> sd_branch" where
  "sd_branch_taken s population =
     (if data s = [] then SD_empty
      else (let n = length (data s) in
            if population \<and> n = 0 then SD_zero
            else if \<not> population \<and> n < 2 then SD_insufficient
            else SD_compute))"

definition standard_deviation :: "calc \<Rightarrow> bool \<Rightarrow> (error + pyval) \<times> calc" where
  "standard_deviation s population =
     (case sd_branch_taken s population of
        SD_empty \<Rightarrow>
          (Inl (ValueError ''Cannot calculate standard deviation: data is empty''), s)
      | SD_zero \<Rightarrow> (Inr (PFloat 0), s)
      | SD_insufficient \<Rightarrow>
          (Inl (ValueError
             ''Cannot calculate sample standard deviation with less than 2 data points''), s)
      | SD_compute \<Rightarrow>
          (let n = int (length (data s)) in
           case mean s of
             (Inl e, s1) \<Rightarrow> (Inl e, s1)
           | (Inr mean_val, s1) \<Rightarrow>
               (case sum_sq_dev (data s1) mean_val of
                  Inl e \<Rightarrow> (Inl e, s1)
                | Inr sq_sum \<Rightarrow>
                    (case py_truediv sq_sum (real_of_int (if population then n else n - 1)) of
                       Inl e \<Rightarrow> (Inl e, s1)
                     | Inr variance \<Rightarrow>
                         (case py_sqrt variance of
                            Inl e \<Rightarrow> (Inl e, s1)
                          | Inr r \<Rightarrow> (Inr (PFloat r), s1))))))"

definition range_calc :: "calc \<Rightarrow> (error + pyval) \<times> calc" where
  "range_calc s =
     (if data s = [] then (Inl (ValueError ''Cannot calculate range: data is empty''), s)
      else (case get_sorted_data s of
              (sd, s1) \<Rightarrow>
                (case py_index sd (- 1) of
                   Inl e \<Rightarrow> (Inl e, s1)
                 | Inr hi \<Rightarrow>
                     (case py_index sd 0 of
                        Inl e \<Rightarrow> (Inl e, s1)
                      | Inr lo \<Rightarrow> (Inr (PInt (hi - lo)), s1)))))"

subsection \<open>Summary\<close>

text \<open>
  One \<open>try\<close> block of \<open>summary\<close>: the statistic is stored under its key, a
  \<open>ValueError\<close> stores \<open>None\<close> instead, any other exception leaves \<open>summary\<close>.
\<close>

definition summary_field ::
  "string \<Rightarrow> (calc \<Rightarrow> (error + pyval) \<times> calc) \<Rightarrow>
   (error + (string \<rightharpoonup> pyval)) \<times> calc \<Rightarrow> (error + (string \<rightharpoonup> pyval)) \<times> calc" where
  "summary_field key stat acc =
     (case acc of
        (Inl e, s) \<Rightarrow> (Inl e, s)
      | (Inr d, s) \<Rightarrow>
          (case stat s of
             (Inr v, s1) \<Rightarrow> (Inr (d(key \<mapsto> v)), s1)
           | (Inl (ValueError msg), s1) \<Rightarrow> (Inr (d(key \<mapsto> PNone)), s1)
           | (Inl e, s1) \<Rightarrow> (Inl e, s1)))"

definition summary_min_max ::
  "(error + (string \<rightharpoonup> pyval)) \<times> calc \<Rightarrow> (error + (string \<rightharpoonup> pyval)) \<times> calc" where
  "summary_min_max acc =
     (case acc of
        (Inl e, s) \<Rightarrow> (Inl e, s)
      | (Inr d0, s) \<Rightarrow>
          (let d = d0(''count'' \<mapsto> PInt (int (length (data s)))) in
           if data s \<noteq> [] then
             (case get_sorted_data s of
                (sd, s1) \<Rightarrow>
                  (case py_index sd 0 of
                     Inl e \<Rightarrow> (Inl e, s1)
                   | Inr lo \<Rightarrow>
                       (case py_index sd (- 1) of
                          Inl e \<Rightarrow> (Inl e, s1)
                        | Inr hi \<Rightarrow> (Inr (d(''min'' \<mapsto> PInt lo, ''max'' \<mapsto> PInt hi)), s1))))
           else (Inr (d(''min'' \<mapsto> PNone, ''max'' \<mapsto> PNone)), s)))"

definition summary :: "calc \<Rightarrow> (error + (string \<rightharpoonup> pyval)) \<times> calc" where
  "summary s =
     summary_min_max
       (summary_field ''range'' range_calc
         (summary_field ''std_dev_population'' (\<lambda>s. standard_deviation s True)
           (summary_field ''std_dev_sample'' (\<lambda>s. standard_deviation s False)
             (summary_field ''mode'' mode
               (summary_field ''median'' median
                 (summary_field ''mean'' mean (Inr Map.empty, s)))))))"

text \<open>
  \<open>__str__\<close> changes the state only through \<open>summary\<close>, which it calls when there is
  data; the text it renders is not modelled.
\<close>

definition str_state :: "calc \<Rightarrow> calc" where
  "str_state s = (if data s = [] then s else snd (summary s))"

subsection \<open>Reachable states\<close>

text \<open>
  A call of a method. The states of a calculator are those the constructor gives,
  followed by any sequence of calls.
\<close>

datatype call =
    SetData "int list"
  | AddValue int
  | AddValues "int list"
  | ClearData
  | Mean
  | Median
  | Mode
  | StandardDeviation bool
  | GetRange
  | Summary
  | Str

fun step :: "calc \<Rightarrow> call \<Rightarrow> calc" where
  "step s (SetData new_data) = set_data s new_data"
| "step s (AddValue v) = add_value s v"
| "step s (AddValues vs) = add_values s vs"
| "step s ClearData = clear_data s"
| "step s Mean = snd (mean s)"
| "step s Median = snd (median s)"
| "step s Mode = snd (mode s)"
| "step s (StandardDeviation population) = snd (standard_deviation s population)"
| "step s GetRange = snd (range_calc s)"
| "step s Summary = snd (summary s)"
| "step s Str = str_state s"

definition run :: "int list option \<Rightarrow> call list \<Rightarrow> calc" where
  "run d calls = foldl step (init d) calls"

section \<open>Values the results are stated in\<close>

text \<open>
  Closed forms of what the readers compute, without the exceptions: the theorems
  below show that the readers return these values.
\<close>

definition mean_value :: "int list \<Rightarrow> real" where
  "mean_value d = real_of_int (sum_list d) / real (length d)"

text \<open>The median of a list that is sorted already.\<close>

definition median_value :: "int list \<Rightarrow> real" where
  "median_value sd =
     (if even (length sd)
      then real_of_int (sd ! (length sd div 2 - 1) + sd ! (length sd div 2)) / 2
      else real_of_int (sd ! (length sd div 2)))"

definition max_freq_of :: "int list \<Rightarrow> nat" where
  "max_freq_of d = Max (count_list d ` set d)"

definition modes_value :: "int list \<Rightarrow> int list" where
  "modes_value d = sort (map fst (filter (\<lambda>(v, freq). freq = max_freq_of d) (Counter d)))"

text \<open>The sum of the squared deviations from the mean.\<close>

definition sq_dev_sum :: "int list \<Rightarrow> real" where
  "sq_dev_sum d = (\<Sum>x\<leftarrow>d. (real_of_int x - mean_value d) ^ 2)"

text \<open>What \<open>summary\<close> stores for a statistic: its value, or \<open>None\<close> when it raised.\<close>

definition or_none :: "error + pyval \<Rightarrow> pyval" where
  "or_none r = (case r of Inl e \<Rightarrow> PNone | Inr v \<Rightarrow> v)"

text \<open>
  The cache-consistency invariant: a sorted view that is present is the sorted data,
  a cached statistic is what the reader returns on a new calculator holding the same
  data, and the cache has no other key.
\<close>

definition consistent :: "calc \<Rightarrow> bool" where
  "consistent s \<longleftrightarrow>
     (\<forall>sd. sorted_data s = Some sd \<longrightarrow> sd = sort (data s)) \<and>
     (\<forall>v. cache s ''mean'' = Some v \<longrightarrow> fst (mean (init (Some (data s)))) = Inr v) \<and>
     (\<forall>v. cache s ''median'' = Some v \<longrightarrow> fst (median (init (Some (data s)))) = Inr v) \<and>
     (\<forall>v. cache s ''mode'' = Some v \<longrightarrow> fst (mode (init (Some (data s)))) = Inr v) \<and>
     (\<forall>k. k \<noteq> ''mean'' \<and> k \<noteq> ''median'' \<and> k \<noteq> ''mode'' \<longrightarrow> cache s k = None)"


section \<open>Auxiliary lemmas\<close>

subsection \<open>Indexing, median of a sorted list, counting\<close>

lemma py_index_nat: "i < length xs \<Longrightarrow> py_index xs (int i) = Inr (xs ! i)"
  by (simp add: py_index_def)

lemma py_index_first: "xs \<noteq> [] \<Longrightarrow> py_index xs 0 = Inr (hd xs)"
  by (simp add: py_index_def hd_conv_nth)

lemma py_index_last: "xs \<noteq> [] \<Longrightarrow> py_index xs (- 1) = Inr (last xs)"
proof -
  assume ne: "xs \<noteq> []"
  then have len: "1 \<le> length xs" by (cases xs) simp_all
  then have "nat (int (length xs) + - 1) = length xs - 1" by simp
  with ne len show ?thesis by (simp add: py_index_def last_conv_nth)
qed

lemma median_of_sorted_nonempty:
  assumes "sd \<noteq> []"
  shows "median_of_sorted sd = Inr (median_value sd)"
proof (cases "even (length sd)")
  case True
  with assms have len: "2 \<le> length sd"
    by (cases sd) (auto simp: Suc_le_eq)
  have mid: "int (length sd) div 2 = int (length sd div 2)" by simp
  have m1: "int (length sd div 2) - 1 = int (length sd div 2 - 1)"
    using len by (simp add: of_nat_diff)
  have i1: "py_index sd (int (length sd) div 2 - 1) = Inr (sd ! (length sd div 2 - 1))"
    unfolding mid m1 using len by (intro py_index_nat) simp
  have i2: "py_index sd (int (length sd) div 2) = Inr (sd ! (length sd div 2))"
    unfolding mid using len by (intro py_index_nat) simp
  from True have ev: "int (length sd) mod 2 = 0" by presburger
  show ?thesis
    unfolding median_of_sorted_def Let_def i1 i2
    using True ev by (simp add: py_truediv_def median_value_def)
next
  case False
  have mid: "int (length sd) div 2 = int (length sd div 2)" by simp
  have i2: "py_index sd (int (length sd) div 2) = Inr (sd ! (length sd div 2))"
    unfolding mid using assms by (intro py_index_nat) simp
  from False have od: "int (length sd) mod 2 \<noteq> 0" by presburger
  show ?thesis
    unfolding median_of_sorted_def Let_def i2
    using False od by (simp add: median_value_def)
qed

lemma counter_add_keys:
  "map fst (counter_add x c) = (if x \<in> fst ` set c then map fst c else map fst c @ [x])"
  by (induction c) (auto split: if_splits)

lemma counter_add_distinct:
  "distinct (map fst c) \<Longrightarrow> distinct (map fst (counter_add x c))"
  by (simp add: counter_add_keys)

lemma counter_add_lookup:
  "map_of (counter_add x c) k =
     (if k = x then Some (case map_of c x of None \<Rightarrow> 1 | Some n \<Rightarrow> n + 1) else map_of c k)"
  by (induction c) auto

lemma counter_foldl_distinct:
  "distinct (map fst c) \<Longrightarrow> distinct (map fst (foldl (\<lambda>acc x. counter_add x acc) c xs))"
  by (induction xs arbitrary: c) (simp_all add: counter_add_distinct)

lemma counter_foldl_lookup:
  "map_of (foldl (\<lambda>acc x. counter_add x acc) c xs) k =
     (case map_of c k of
        None \<Rightarrow> if k \<in> set xs then Some (count_list xs k) else None
      | Some n \<Rightarrow> Some (n + count_list xs k))"
proof (induction xs arbitrary: c)
  case Nil
  then show ?case by (simp split: option.splits)
next
  case (Cons x xs)
  show ?case
    by (simp add: Cons.IH counter_add_lookup split: option.splits)
qed

lemma Counter_distinct: "distinct (map fst (Counter xs))"
  unfolding Counter_def by (rule counter_foldl_distinct) simp

lemma Counter_lookup:
  "map_of (Counter xs) k = (if k \<in> set xs then Some (count_list xs k) else None)"
  unfolding Counter_def by (simp add: counter_foldl_lookup)

lemma Counter_mem: "(k, n) \<in> set (Counter xs) \<longleftrightarrow> k \<in> set xs \<and> n = count_list xs k"
proof -
  have "(k, n) \<in> set (Counter xs) \<longleftrightarrow> map_of (Counter xs) k = Some n"
    by (simp add: Counter_distinct)
  also have "\<dots> \<longleftrightarrow> k \<in> set xs \<and> n = count_list xs k"
    by (auto simp: Counter_lookup)
  finally show ?thesis .
qed

lemma Counter_freqs: "set (map snd (Counter xs)) = count_list xs ` set xs"
  by (auto simp: Counter_mem image_iff) (metis Counter_mem snd_conv)

lemma py_max_Max: "ns \<noteq> [] \<Longrightarrow> py_max ns = Inr (Max (set ns))"
proof (cases ns)
  case Nil
  assume "ns \<noteq> []"
  with Nil show ?thesis by simp
next
  case (Cons n ns')
  have "foldl max n ns' = fold max ns' n"
    by (simp add: foldl_conv_fold max.commute)
  also have "\<dots> = Max (set (n # ns'))"
    by (rule Max.set_eq_fold [symmetric])
  finally show ?thesis
    unfolding Cons by (simp only: py_max.simps)
qed

lemma modes_of_nonempty: 
  assumes "d \<noteq> []"
  shows "modes_of d = Inr (modes_value d)"
proof -
  from assms have "set (map snd (Counter d)) \<noteq> {}"
    unfolding Counter_freqs by simp
  then have ne: "map snd (Counter d) \<noteq> []" by (metis set_empty)
  show ?thesis
    unfolding modes_of_def Let_def py_max_Max [OF ne] Counter_freqs
    by (simp add: modes_value_def max_freq_of_def)
qed

lemma set_modes_value:
  "set (modes_value d) = {v \<in> set d. count_list d v = max_freq_of d}"
  by (auto simp: modes_value_def Counter_mem image_iff)

lemma max_freq_of_ge: "w \<in> set d \<Longrightarrow> count_list d w \<le> max_freq_of d"
  unfolding max_freq_of_def by (intro Max_ge) simp_all

lemma max_freq_of_attained: "d \<noteq> [] \<Longrightarrow> \<exists>v\<in>set d. count_list d v = max_freq_of d"
proof -
  assume "d \<noteq> []"
  then have "Max (count_list d ` set d) \<in> count_list d ` set d"
    by (intro Max_in) simp_all
  then show ?thesis unfolding max_freq_of_def by auto
qed

lemma is_max_freq_iff:
  assumes "v \<in> set d"
  shows "count_list d v = max_freq_of d \<longleftrightarrow> (\<forall>w\<in>set d. count_list d w \<le> count_list d v)"
proof
  assume "count_list d v = max_freq_of d"
  then show "\<forall>w\<in>set d. count_list d w \<le> count_list d v"
    by (simp add: max_freq_of_ge)
next
  assume all: "\<forall>w\<in>set d. count_list d w \<le> count_list d v"
  from assms have "d \<noteq> []" by auto
  from max_freq_of_attained [OF this] obtain u where "u \<in> set d" "count_list d u = max_freq_of d"
    by blast
  with all have "max_freq_of d \<le> count_list d v" by auto
  with max_freq_of_ge [OF assms] show "count_list d v = max_freq_of d" by simp
qed

lemma modes_value_nonempty: "d \<noteq> [] \<Longrightarrow> modes_value d \<noteq> []"
proof -
  assume "d \<noteq> []"
  from max_freq_of_attained [OF this] have "set (modes_value d) \<noteq> {}"
    unfolding set_modes_value by blast
  then show ?thesis by auto
qed

lemma modes_value_strict: "sorted_wrt (<) (modes_value d)"
proof -
  have "distinct (map fst (filter (\<lambda>(v, freq). freq = max_freq_of d) (Counter d)))"
    by (rule distinct_map_filter) (rule Counter_distinct)
  then show ?thesis
    unfolding modes_value_def by (simp add: strict_sorted_iff)
qed

lemma mean_init:
  "fst (mean (init (Some d))) =
     (if d = [] then Inl (ValueError ''Cannot calculate mean: data is empty'')
      else Inr (PFloat (mean_value d)))"
  by (simp add: mean_def init_def py_truediv_def cache_get_def cache_put_def mean_value_def)

lemma sort_eq_Nil: "sort (d :: int list) = [] \<longleftrightarrow> d = []"
  by (metis length_sort length_0_conv)

lemma median_init:
  "fst (median (init (Some d))) =
     (if d = [] then Inl (ValueError ''Cannot calculate median: data is empty'')
      else Inr (PFloat (median_value (sort d))))"
  by (simp add: median_def init_def get_sorted_data_def cache_get_def cache_put_def
      median_of_sorted_nonempty sort_eq_Nil)

lemma mode_init:
  "fst (mode (init (Some d))) =
     (if d = [] then Inl (ValueError ''Cannot calculate mode: data is empty'')
      else Inr (PList (modes_value d)))"
  by (simp add: mode_def init_def cache_get_def cache_put_def modes_of_nonempty)

lemma consistent_iff:
  "consistent s \<longleftrightarrow>
     (\<forall>sd. sorted_data s = Some sd \<longrightarrow> sd = sort (data s)) \<and>
     (\<forall>v. cache s ''mean'' = Some v \<longrightarrow> data s \<noteq> [] \<and> v = PFloat (mean_value (data s))) \<and>
     (\<forall>v. cache s ''median'' = Some v \<longrightarrow>
          data s \<noteq> [] \<and> v = PFloat (median_value (sort (data s)))) \<and>
     (\<forall>v. cache s ''mode'' = Some v \<longrightarrow> data s \<noteq> [] \<and> v = PList (modes_value (data s))) \<and>
     (\<forall>k. k \<noteq> ''mean'' \<and> k \<noteq> ''median'' \<and> k \<noteq> ''mode'' \<longrightarrow> cache s k = None)"
  unfolding consistent_def mean_init median_init mode_init
  by (auto split: if_splits)

lemma consistent_init: "consistent (init d)"
  by (simp add: consistent_def init_def)

lemma consistent_cleared:
  "consistent (s\<lparr>data := d, sorted_data := None, cache := Map.empty\<rparr>)"
  by (simp add: consistent_def)

lemma consistent_get_sorted_data: "consistent s \<Longrightarrow> consistent (snd (get_sorted_data s))"
  by (auto simp: consistent_iff get_sorted_data_def split: option.splits)

lemma fst_get_sorted_data: "consistent s \<Longrightarrow> fst (get_sorted_data s) = sort (data s)"
  by (auto simp: consistent_iff get_sorted_data_def split: option.splits)

lemma data_get_sorted_data: "data (snd (get_sorted_data s)) = data s"
  by (simp add: get_sorted_data_def split: option.splits)

lemma cache_get_sorted_data: "cache (snd (get_sorted_data s)) = cache s"
  by (simp add: get_sorted_data_def split: option.splits)

subsection \<open>The mean\<close>

lemma mean_eq:
  "mean s =
     (case cache s ''mean'' of
        Some v \<Rightarrow> (Inr v, s)
      | None \<Rightarrow>
          if data s = [] then (Inl (ValueError ''Cannot calculate mean: data is empty''), s)
          else (Inr (PFloat (mean_value (data s))),
                cache_put ''mean'' (PFloat (mean_value (data s))) s))"
  by (auto simp: mean_def py_truediv_def cache_get_def cache_put_def mean_value_def
      split: option.splits)

lemma mean_consistent: "consistent s \<Longrightarrow> consistent (snd (mean s))"
  by (auto simp: mean_eq consistent_iff cache_put_def split: option.splits)

lemma mean_value_of:
  "consistent s \<Longrightarrow> data s \<noteq> [] \<Longrightarrow> fst (mean s) = Inr (PFloat (mean_value (data s)))"
  by (auto simp: mean_eq consistent_iff split: option.splits)

lemma mean_empty:
  "consistent s \<Longrightarrow> data s = [] \<Longrightarrow>
   mean s = (Inl (ValueError ''Cannot calculate mean: data is empty''), s)"
  by (auto simp: mean_eq consistent_iff split: option.splits)

lemma data_mean: "data (snd (mean s)) = data s"
  by (simp add: mean_eq cache_put_def split: option.splits)

subsection \<open>The median\<close>

lemma median_eq:
  "consistent s \<Longrightarrow> median s =
     (case cache s ''median'' of
        Some v \<Rightarrow> (Inr v, s)
      | None \<Rightarrow>
          if data s = [] then (Inl (ValueError ''Cannot calculate median: data is empty''), s)
          else (Inr (PFloat (median_value (sort (data s)))),
                cache_put ''median'' (PFloat (median_value (sort (data s))))
                  (snd (get_sorted_data s))))"
proof -
  assume c: "consistent s"
  obtain sd s1 where g: "get_sorted_data s = (sd, s1)" by (cases "get_sorted_data s")
  from fst_get_sorted_data [OF c] g have sd: "sd = sort (data s)" by simp
  have m: "data s \<noteq> [] \<Longrightarrow> median_of_sorted sd = Inr (median_value (sort (data s)))"
    unfolding sd by (rule median_of_sorted_nonempty) (simp add: sort_eq_Nil)
  show ?thesis
    by (auto simp: median_def g m cache_get_def cache_put_def split: option.splits)
qed

lemma median_consistent:
  assumes "consistent s"
  shows "consistent (snd (median s))"
proof -
  from consistent_get_sorted_data [OF assms]
  have "consistent (snd (get_sorted_data s))" .
  then have "data s \<noteq> [] \<Longrightarrow> cache s ''median'' = None \<Longrightarrow>
      consistent (cache_put ''median'' (PFloat (median_value (sort (data s))))
        (snd (get_sorted_data s)))"
    by (auto simp: consistent_iff cache_put_def data_get_sorted_data cache_get_sorted_data)
  with assms show ?thesis
    by (auto simp: median_eq split: option.splits)
qed

lemma median_value_of:
  "consistent s \<Longrightarrow> data s \<noteq> [] \<Longrightarrow>
   fst (median s) = Inr (PFloat (median_value (sort (data s))))"
  by (auto simp: median_eq consistent_iff split: option.splits)

lemma median_empty:
  "consistent s \<Longrightarrow> data s = [] \<Longrightarrow>
   median s = (Inl (ValueError ''Cannot calculate median: data is empty''), s)"
  by (auto simp: median_eq consistent_iff split: option.splits)

subsection \<open>The mode\<close>

lemma mode_eq:
  "mode s =
     (case cache s ''mode'' of
        Some v \<Rightarrow> (Inr v, s)
      | None \<Rightarrow>
          if data s = [] then (Inl (ValueError ''Cannot calculate mode: data is empty''), s)
          else (Inr (PList (modes_value (data s))),
                cache_put ''mode'' (PList (modes_value (data s))) s))"
  by (auto simp: mode_def cache_get_def cache_put_def modes_of_nonempty split: option.splits)

lemma mode_consistent: "consistent s \<Longrightarrow> consistent (snd (mode s))"
  by (auto simp: mode_eq consistent_iff cache_put_def split: option.splits)

lemma mode_value_of:
  "consistent s \<Longrightarrow> data s \<noteq> [] \<Longrightarrow> fst (mode s) = Inr (PList (modes_value (data s)))"
  by (auto simp: mode_eq consistent_iff split: option.splits)

lemma mode_empty:
  "consistent s \<Longrightarrow> data s = [] \<Longrightarrow>
   mode s = (Inl (ValueError ''Cannot calculate mode: data is empty''), s)"
  by (auto simp: mode_eq consistent_iff split: option.splits)

subsection \<open>The range\<close>

lemma hd_sorted_Min: "sorted xs \<Longrightarrow> xs \<noteq> [] \<Longrightarrow> hd xs = Min (set xs)"
  by (cases xs) (auto intro!: Min_eqI [symmetric])

lemma last_sorted_Max:
  fixes xs :: "int list"
  assumes "sorted xs" "xs \<noteq> []"
  shows "last xs = Max (set xs)"
proof (rule Max_eqI [symmetric])
  show "finite (set xs)" by simp
  show "last xs \<in> set xs" using assms(2) by simp
  fix y assume "y \<in> set xs"
  then obtain i where i: "i < length xs" "xs ! i = y" by (auto simp: in_set_conv_nth)
  then have "xs ! i \<le> xs ! (length xs - 1)"
    using assms by (intro sorted_nth_mono) auto
  with i assms(2) show "y \<le> last xs" by (simp add: last_conv_nth)
qed

lemma hd_sort: "d \<noteq> [] \<Longrightarrow> hd (sort d) = Min (set (d :: int list))"
  using hd_sorted_Min [of "sort d"] by (simp add: sort_eq_Nil)

lemma last_sort: "d \<noteq> [] \<Longrightarrow> last (sort d) = Max (set (d :: int list))"
  using last_sorted_Max [of "sort d"] by (simp add: sort_eq_Nil)

lemma range_eq:
  assumes c: "consistent s"
  shows "range_calc s =
     (if data s = [] then (Inl (ValueError ''Cannot calculate range: data is empty''), s)
      else (Inr (PInt (Max (set (data s)) - Min (set (data s)))), snd (get_sorted_data s)))"
proof -
  obtain sd s1 where g: "get_sorted_data s = (sd, s1)" by (cases "get_sorted_data s")
  from fst_get_sorted_data [OF c] g have sd: "sd = sort (data s)" by simp
  show ?thesis
    by (simp add: range_calc_def g sd py_index_first py_index_last sort_eq_Nil hd_sort last_sort)
qed

lemma range_consistent: "consistent s \<Longrightarrow> consistent (snd (range_calc s))"
  by (simp add: range_eq consistent_get_sorted_data)

subsection \<open>The standard deviation\<close>

lemma sum_sq_dev_float:
  "sum_sq_dev d (PFloat m) = Inr (\<Sum>x\<leftarrow>d. (real_of_int x - m) ^ 2)"
  by (induction d) simp_all

lemma sq_dev_sum_nonneg: "0 \<le> sq_dev_sum d"
  unfolding sq_dev_sum_def by (rule sum_list_nonneg) auto

lemma sd_branch_taken_eq:
  "sd_branch_taken s p =
     (if data s = [] then SD_empty
      else if \<not> p \<and> length (data s) < 2 then SD_insufficient else SD_compute)"
  by (simp add: sd_branch_taken_def)

lemma standard_deviation_eq:
  assumes c: "consistent s"
  shows "standard_deviation s p =
     (if data s = [] then
        (Inl (ValueError ''Cannot calculate standard deviation: data is empty''), s)
      else if \<not> p \<and> length (data s) < 2 then
        (Inl (ValueError
           ''Cannot calculate sample standard deviation with less than 2 data points''), s)
      else (Inr (PFloat (sqrt (sq_dev_sum (data s) /
              (if p then real (length (data s)) else real (length (data s)) - 1)))),
            snd (mean s)))"
proof (cases "data s = [] \<or> (\<not> p \<and> length (data s) < 2)")
  case True
  then show ?thesis
    by (auto simp: standard_deviation_def sd_branch_taken_eq)
next
  case False
  then have ne: "data s \<noteq> []" and len: "p \<or> 2 \<le> length (data s)" by auto
  obtain r s1 where m: "mean s = (r, s1)" by (cases "mean s")
  from mean_value_of [OF c ne] m have r: "r = Inr (PFloat (mean_value (data s)))" by simp
  from data_mean [of s] m have d1: "data s1 = data s" by simp
  define k where "k = (if p then int (length (data s)) else int (length (data s)) - 1)"
  have kpos: "0 < k" using ne len by (auto simp: k_def)
  have kreal: "real_of_int k = (if p then real (length (data s)) else real (length (data s)) - 1)"
    by (simp add: k_def)
  have nonneg: "\<not> sq_dev_sum (data s) / real_of_int k < 0"
    using sq_dev_sum_nonneg [of "data s"] kpos by (simp add: not_less)
  have br: "sd_branch_taken s p = SD_compute"
    using False by (simp add: sd_branch_taken_eq)
  have "standard_deviation s p =
      (Inr (PFloat (sqrt (sq_dev_sum (data s) / real_of_int k))), s1)"
    unfolding standard_deviation_def br Let_def m r
    using kpos nonneg
    by (simp add: d1 sum_sq_dev_float py_truediv_def py_sqrt_def sq_dev_sum_def [symmetric]
        k_def [symmetric])
  with False m show ?thesis by (simp add: kreal)
qed

lemma standard_deviation_consistent:
  "consistent s \<Longrightarrow> consistent (snd (standard_deviation s p))"
  by (simp add: standard_deviation_eq mean_consistent)

subsection \<open>Results on a consistent state depend on the data only\<close>

lemma mean_fst:
  "consistent s \<Longrightarrow> fst (mean s) =
     (if data s = [] then Inl (ValueError ''Cannot calculate mean: data is empty'')
      else Inr (PFloat (mean_value (data s))))"
  by (simp add: mean_value_of mean_empty)

lemma median_fst:
  "consistent s \<Longrightarrow> fst (median s) =
     (if data s = [] then Inl (ValueError ''Cannot calculate median: data is empty'')
      else Inr (PFloat (median_value (sort (data s)))))"
  by (simp add: median_value_of median_empty)

lemma mode_fst:
  "consistent s \<Longrightarrow> fst (mode s) =
     (if data s = [] then Inl (ValueError ''Cannot calculate mode: data is empty'')
      else Inr (PList (modes_value (data s))))"
  by (simp add: mode_value_of mode_empty)

lemma data_median: "consistent s \<Longrightarrow> data (snd (median s)) = data s"
  by (simp add: median_eq cache_put_def data_get_sorted_data split: option.splits)

lemma data_mode: "data (snd (mode s)) = data s"
  by (simp add: mode_eq cache_put_def split: option.splits)

lemma data_standard_deviation: "consistent s \<Longrightarrow> data (snd (standard_deviation s p)) = data s"
  by (simp add: standard_deviation_eq data_mean)

lemma data_range: "consistent s \<Longrightarrow> data (snd (range_calc s)) = data s"
  by (simp add: range_eq data_get_sorted_data)

subsection \<open>The summary\<close>

lemma summary_field_eq:
  assumes "\<And>e. fst (stat s) = Inl e \<Longrightarrow> \<exists>msg. e = ValueError msg"
  shows "summary_field key stat (Inr d, s) =
           (Inr (d(key \<mapsto> or_none (fst (stat s)))), snd (stat s))"
proof (cases "stat s")
  case (Pair r s1)
  show ?thesis
  proof (cases r)
    case (Inl e)
    with Pair assms [of e] obtain msg where "e = ValueError msg" by auto
    with Pair Inl show ?thesis by (simp add: summary_field_def or_none_def)
  next
    case (Inr v)
    with Pair show ?thesis by (simp add: summary_field_def or_none_def)
  qed
qed

lemma summary_eq:
  assumes c: "consistent s"
  shows "fst (summary s) =
     Inr [''mean'' \<mapsto> or_none (fst (mean s)),
          ''median'' \<mapsto> or_none (fst (median s)),
          ''mode'' \<mapsto> or_none (fst (mode s)),
          ''std_dev_sample'' \<mapsto> or_none (fst (standard_deviation s False)),
          ''std_dev_population'' \<mapsto> or_none (fst (standard_deviation s True)),
          ''range'' \<mapsto> or_none (fst (range_calc s)),
          ''count'' \<mapsto> PInt (int (length (data s))),
          ''min'' \<mapsto> (if data s = [] then PNone else PInt (Min (set (data s)))),
          ''max'' \<mapsto> (if data s = [] then PNone else PInt (Max (set (data s))))]"
    (is "_ = Inr ?D")
  and "consistent (snd (summary s))"
proof -
  define s1 where "s1 = snd (mean s)"
  define s2 where "s2 = snd (median s1)"
  define s3 where "s3 = snd (mode s2)"
  define s4 where "s4 = snd (standard_deviation s3 False)"
  define s5 where "s5 = snd (standard_deviation s4 True)"
  define s6 where "s6 = snd (range_calc s5)"
  have c1: "consistent s1" unfolding s1_def by (rule mean_consistent [OF c])
  have c2: "consistent s2" unfolding s2_def by (rule median_consistent [OF c1])
  have c3: "consistent s3" unfolding s3_def by (rule mode_consistent [OF c2])
  have c4: "consistent s4" unfolding s4_def by (rule standard_deviation_consistent [OF c3])
  have c5: "consistent s5" unfolding s5_def by (rule standard_deviation_consistent [OF c4])
  have c6: "consistent s6" unfolding s6_def by (rule range_consistent [OF c5])
  have d1: "data s1 = data s" unfolding s1_def by (rule data_mean)
  have d2: "data s2 = data s" unfolding s2_def by (simp add: data_median [OF c1] d1)
  have d3: "data s3 = data s" unfolding s3_def by (simp add: data_mode d2)
  have d4: "data s4 = data s" unfolding s4_def by (simp add: data_standard_deviation [OF c3] d3)
  have d5: "data s5 = data s" unfolding s5_def by (simp add: data_standard_deviation [OF c4] d4)
  have d6: "data s6 = data s" unfolding s6_def by (simp add: data_range [OF c5] d5)
  have r2: "fst (median s1) = fst (median s)"
    by (simp add: median_fst c c1 d1)
  have r3: "fst (mode s2) = fst (mode s)"
    by (simp add: mode_fst c c2 d2)
  have r4: "fst (standard_deviation s3 False) = fst (standard_deviation s False)"
    by (simp add: standard_deviation_eq c c3 d3)
  have r5: "fst (standard_deviation s4 True) = fst (standard_deviation s True)"
    by (simp add: standard_deviation_eq c c4 d4)
  have r6: "fst (range_calc s5) = fst (range_calc s)"
    by (simp add: range_eq c c5 d5)
  have f1: "summary_field ''mean'' mean (Inr Map.empty, s) =
      (Inr [''mean'' \<mapsto> or_none (fst (mean s))], s1)"
    unfolding s1_def by (rule summary_field_eq) (auto simp: mean_fst [OF c] split: if_splits)
  have f2: "summary_field ''median'' median (Inr [''mean'' \<mapsto> or_none (fst (mean s))], s1) =
      (Inr [''mean'' \<mapsto> or_none (fst (mean s)), ''median'' \<mapsto> or_none (fst (median s))], s2)"
    unfolding s2_def r2 [symmetric]
    by (rule summary_field_eq) (auto simp: median_fst [OF c1] split: if_splits)
  have f3: "summary_field ''mode'' mode
       (Inr [''mean'' \<mapsto> or_none (fst (mean s)), ''median'' \<mapsto> or_none (fst (median s))], s2) =
      (Inr [''mean'' \<mapsto> or_none (fst (mean s)), ''median'' \<mapsto> or_none (fst (median s)),
            ''mode'' \<mapsto> or_none (fst (mode s))], s3)"
    unfolding s3_def r3 [symmetric]
    by (rule summary_field_eq) (auto simp: mode_fst [OF c2] split: if_splits)
  have f4: "summary_field ''std_dev_sample'' (\<lambda>s. standard_deviation s False)
       (Inr [''mean'' \<mapsto> or_none (fst (mean s)), ''median'' \<mapsto> or_none (fst (median s)),
            ''mode'' \<mapsto> or_none (fst (mode s))], s3) =
      (Inr [''mean'' \<mapsto> or_none (fst (mean s)), ''median'' \<mapsto> or_none (fst (median s)),
            ''mode'' \<mapsto> or_none (fst (mode s)),
            ''std_dev_sample'' \<mapsto> or_none (fst (standard_deviation s False))], s4)"
    unfolding s4_def r4 [symmetric]
    by (rule summary_field_eq) (auto simp: standard_deviation_eq [OF c3] split: if_splits)
  have f5: "summary_field ''std_dev_population'' (\<lambda>s. standard_deviation s True)
       (Inr [''mean'' \<mapsto> or_none (fst (mean s)), ''median'' \<mapsto> or_none (fst (median s)),
            ''mode'' \<mapsto> or_none (fst (mode s)),
            ''std_dev_sample'' \<mapsto> or_none (fst (standard_deviation s False))], s4) =
      (Inr [''mean'' \<mapsto> or_none (fst (mean s)), ''median'' \<mapsto> or_none (fst (median s)),
            ''mode'' \<mapsto> or_none (fst (mode s)),
            ''std_dev_sample'' \<mapsto> or_none (fst (standard_deviation s False)),
            ''std_dev_population'' \<mapsto> or_none (fst (standard_deviation s True))], s5)"
    unfolding s5_def r5 [symmetric]
    by (rule summary_field_eq) (auto simp: standard_deviation_eq [OF c4] split: if_splits)
  have f6: "summary_field ''range'' range_calc
       (Inr [''mean'' \<mapsto> or_none (fst (mean s)), ''median'' \<mapsto> or_none (fst (median s)),
            ''mode'' \<mapsto> or_none (fst (mode s)),
            ''std_dev_sample'' \<mapsto> or_none (fst (standard_deviation s False)),
            ''std_dev_population'' \<mapsto> or_none (fst (standard_deviation s True))], s5) =
      (Inr [''mean'' \<mapsto> or_none (fst (mean s)), ''median'' \<mapsto> or_none (fst (median s)),
            ''mode'' \<mapsto> or_none (fst (mode s)),
            ''std_dev_sample'' \<mapsto> or_none (fst (standard_deviation s False)),
            ''std_dev_population'' \<mapsto> or_none (fst (standard_deviation s True)),
            ''range'' \<mapsto> or_none (fst (range_calc s))], s6)"
    unfolding s6_def r6 [symmetric]
    by (rule summary_field_eq) (auto simp: range_eq [OF c5] split: if_splits)
  obtain sd s7 where g: "get_sorted_data s6 = (sd, s7)" by (cases "get_sorted_data s6")
  from fst_get_sorted_data [OF c6] g have sd: "sd = sort (data s)" by (simp add: d6)
  from consistent_get_sorted_data [OF c6] g have c7: "consistent s7" by simp
  have ix: "data s \<noteq> [] \<Longrightarrow> py_index sd 0 = Inr (Min (set (data s)))"
    "data s \<noteq> [] \<Longrightarrow> py_index sd (- 1) = Inr (Max (set (data s)))"
    unfolding sd by (simp_all add: py_index_first py_index_last sort_eq_Nil hd_sort last_sort)
  have s: "summary s = (Inr ?D, if data s = [] then s6 else s7)"
    unfolding summary_def f1 f2 f3 f4 f5 f6
    by (simp add: summary_min_max_def d6 g ix)
  from s show "fst (summary s) = Inr ?D" by simp
  from s c6 c7 show "consistent (snd (summary s))" by simp
qed

lemma consistent_step: "consistent s \<Longrightarrow> consistent (step s c)"
  by (cases c)
    (simp_all add: set_data_def add_value_def add_values_def clear_data_def consistent_cleared
      mean_consistent median_consistent mode_consistent standard_deviation_consistent
      range_consistent summary_eq(2) str_state_def)

lemma consistent_foldl: "consistent s \<Longrightarrow> consistent (foldl step s calls)"
  by (induction calls arbitrary: s) (simp_all add: consistent_step)

lemma consistent_run: "consistent (run d calls)"
  unfolding run_def by (rule consistent_foldl) (rule consistent_init)

text \<open>The definitions of the model, for evaluating it on concrete inputs.\<close>

lemmas model_defs = run_def init_def set_data_def add_value_def add_values_def clear_data_def
  get_sorted_data_def cache_get_def cache_put_def mean_def median_def mode_def
  median_of_sorted_def modes_of_def Counter_def py_index_def py_truediv_def py_sqrt_def
  standard_deviation_def sd_branch_taken_def range_calc_def

section \<open>The claims\<close>





lemma mem_modes_value:
  "v \<in> set (modes_value d) \<longleftrightarrow>
     v \<in> set d \<and> (\<forall>w\<in>set d. count_list d w \<le> count_list d v)"
proof -
  have "v \<in> set (modes_value d) \<longleftrightarrow> v \<in> set d \<and> count_list d v = max_freq_of d"
    by (simp add: set_modes_value)
  with is_max_freq_iff [of v d] show ?thesis by blast
qed

text \<open>
  Claim C5. In every state a calculator can reach, \<open>mode()\<close> on non-empty data returns
  a non-empty list; each of its values occurs in the data at least as often as every
  other value of the data; every value of the data that does so is in the list; and
  the list is strictly ascending. On empty data it raises. For the data
  1, 1, 2, 2, 3, 3, 4 the result is 1, 2, 3.
\<close>

theorem mode_most_frequent:
  "(data (run d calls) \<noteq> [] \<longrightarrow>
      (\<exists>ms. fst (mode (run d calls)) = Inr (PList ms) \<and> ms \<noteq> [] \<and>
         (\<forall>v\<in>set ms. v \<in> set (data (run d calls)) \<and>
            (\<forall>w\<in>set (data (run d calls)).
               count_list (data (run d calls)) w \<le> count_list (data (run d calls)) v)) \<and>
         (\<forall>v\<in>set (data (run d calls)).
            (\<forall>w\<in>set (data (run d calls)).
               count_list (data (run d calls)) w \<le> count_list (data (run d calls)) v)
            \<longrightarrow> v \<in> set ms) \<and>
         sorted_wrt (<) ms)) \<and>
   (data (run d calls) = [] \<longrightarrow>
      fst (mode (run d calls)) = Inl (ValueError ''Cannot calculate mode: data is empty'')) \<and>
   fst (mode (init (Some [1, 1, 2, 2, 3, 3, 4]))) = Inr (PList [1, 2, 3])"
proof -
  define D where "D = data (run d calls)"
  have ex: "fst (mode (init (Some [1, 1, 2, 2, 3, 3, 4]))) = Inr (PList [1, 2, 3])"
    by (simp add: model_defs)
  have empty: "D = [] \<Longrightarrow>
      fst (mode (run d calls)) = Inl (ValueError ''Cannot calculate mode: data is empty'')"
    unfolding D_def by (simp add: mode_fst [OF consistent_run])
  have nonempty: "\<exists>ms. fst (mode (run d calls)) = Inr (PList ms) \<and> ms \<noteq> [] \<and>
         (\<forall>v\<in>set ms. v \<in> set D \<and> (\<forall>w\<in>set D. count_list D w \<le> count_list D v)) \<and>
         (\<forall>v\<in>set D. (\<forall>w\<in>set D. count_list D w \<le> count_list D v) \<longrightarrow> v \<in> set ms) \<and>
         sorted_wrt (<) ms" if ne: "D \<noteq> []"
  proof (intro exI conjI)
    show "fst (mode (run d calls)) = Inr (PList (modes_value D))"
      using ne unfolding D_def by (simp add: mode_fst [OF consistent_run])
    show "modes_value D \<noteq> []" by (rule modes_value_nonempty [OF ne])
    show "\<forall>v\<in>set (modes_value D). v \<in> set D \<and> (\<forall>w\<in>set D. count_list D w \<le> count_list D v)"
      by (simp add: mem_modes_value)
    show "\<forall>v\<in>set D. (\<forall>w\<in>set D. count_list D w \<le> count_list D v) \<longrightarrow> v \<in> set (modes_value D)"
      by (simp add: mem_modes_value)
    show "sorted_wrt (<) (modes_value D)" by (rule modes_value_strict)
  qed
  from empty nonempty ex show ?thesis unfolding D_def by blast
qed


theorem mode_most_frequent_witness:
  "data (run (Some [3, 1, 3, 1, 2]) [Mode, AddValue 2, AddValue 4]) = [3, 1, 3, 1, 2, 2, 4] \<and>
   fst (mode (run (Some [3, 1, 3, 1, 2]) [Mode, AddValue 2, AddValue 4])) =
     Inr (PList [1, 2, 3]) \<and>
   sorted_wrt (<) [1, 2, 3 :: int] \<and>
   count_list [3, 1, 3, 1, 2, 2, 4 :: int] 1 = 2 \<and>
   count_list [3, 1, 3, 1, 2, 2, 4 :: int] 2 = 2 \<and>
   count_list [3, 1, 3, 1, 2, 2, 4 :: int] 3 = 2 \<and>
   count_list [3, 1, 3, 1, 2, 2, 4 :: int] 4 = 1 \<and>
   data (run (Some [7]) [Mode, SetData []]) = [] \<and>
   fst (mode (run (Some [7]) [Mode, SetData []])) =
     Inl (ValueError ''Cannot calculate mode: data is empty'')"
proof -
  have d1: "data (run (Some [3, 1, 3, 1, 2]) [Mode, AddValue 2, AddValue 4]) =
      [3, 1, 3, 1, 2, 2, 4]"
    by (simp add: model_defs)
  have d2: "data (run (Some [7]) [Mode, SetData []]) = []"
    by (simp add: model_defs)
  have ev: "fst (mode (run (Some [3, 1, 3, 1, 2]) [Mode, AddValue 2, AddValue 4])) =
      Inr (PList [1, 2, 3])"
    by (simp add: model_defs)
  from mode_most_frequent [of "Some [3, 1, 3, 1, 2]" "[Mode, AddValue 2, AddValue 4]"] d1
  obtain ms where
    "fst (mode (run (Some [3, 1, 3, 1, 2]) [Mode, AddValue 2, AddValue 4])) = Inr (PList ms)"
    and st: "sorted_wrt (<) ms"
    by auto
  with ev have "ms = [1, 2, 3]" by simp
  with st have s: "sorted_wrt (<) [1, 2, 3 :: int]" by simp
  from mode_most_frequent [of "Some [7]" "[Mode, SetData []]"] d2
  have e: "fst (mode (run (Some [7]) [Mode, SetData []])) =
      Inl (ValueError ''Cannot calculate mode: data is empty'')"
    by simp
  from d1 d2 ev s e show ?thesis by simp
qed

lemma all_equal_Max_Min:
  fixes d :: "int list"
  assumes "d \<noteq> []" "\<forall>x\<in>set d. \<forall>y\<in>set d. x = y"
  shows "Max (set d) = Min (set d)"
proof -
  from assms(1) have "Max (set d) \<in> set d" "Min (set d) \<in> set d"
    by (intro Max_in Min_in; simp)+
  with assms(2) show ?thesis by blast
qed

text \<open>
  Claim C8. In every state a calculator can reach, \<open>range()\<close> on non-empty data returns
  the integer \<open>max - min\<close> of the data, which is 0 when all elements are equal; on empty
  data it raises.
\<close>

theorem range_max_minus_min:
  "(data (run d calls) \<noteq> [] \<longrightarrow>
      fst (range_calc (run d calls)) =
        Inr (PInt (Max (set (data (run d calls))) - Min (set (data (run d calls)))))) \<and>
   (data (run d calls) \<noteq> [] \<and>
    (\<forall>x\<in>set (data (run d calls)). \<forall>y\<in>set (data (run d calls)). x = y) \<longrightarrow>
      fst (range_calc (run d calls)) = Inr (PInt 0)) \<and>
   (data (run d calls) = [] \<longrightarrow>
      fst (range_calc (run d calls)) =
        Inl (ValueError ''Cannot calculate range: data is empty''))"
  using all_equal_Max_Min [of "data (run d calls)"]
  by (simp add: range_eq [OF consistent_run])

theorem range_max_minus_min_witness:
  "data (run (Some [4, 9]) [Median, AddValue 2]) = [4, 9, 2] \<and>
   fst (range_calc (run (Some [4, 9]) [Median, AddValue 2])) = Inr (PInt 7) \<and>
   data (run None [AddValues [6, 6, 6], GetRange]) = [6, 6, 6] \<and>
   fst (range_calc (run None [AddValues [6, 6, 6], GetRange])) = Inr (PInt 0) \<and>
   data (run (Some [1, 2]) [GetRange, ClearData]) = [] \<and>
   fst (range_calc (run (Some [1, 2]) [GetRange, ClearData])) =
     Inl (ValueError ''Cannot calculate range: data is empty'')"
proof -
  have d1: "data (run (Some [4, 9]) [Median, AddValue 2]) = [4, 9, 2]"
    by (simp add: model_defs)
  have d2: "data (run None [AddValues [6, 6, 6], GetRange]) = [6, 6, 6]"
    by (simp add: model_defs)
  have d3: "data (run (Some [1, 2]) [GetRange, ClearData]) = []"
    by (simp add: model_defs)
  from range_max_minus_min [of "Some [4, 9]" "[Median, AddValue 2]"]
  have r1: "fst (range_calc (run (Some [4, 9]) [Median, AddValue 2])) = Inr (PInt 7)"
    unfolding d1 by simp
  from range_max_minus_min [of None "[AddValues [6, 6, 6], GetRange]"]
  have r2: "fst (range_calc (run None [AddValues [6, 6, 6], GetRange])) = Inr (PInt 0)"
    unfolding d2 by simp
  from range_max_minus_min [of "Some [1, 2]" "[GetRange, ClearData]"]
  have r3: "fst (range_calc (run (Some [1, 2]) [GetRange, ClearData])) =
     Inl (ValueError ''Cannot calculate range: data is empty'')"
    unfolding d3 by simp
  from d1 d2 d3 r1 r2 r3 show ?thesis by simp
qed













text \<open>
  Claim C10. The branch of \<open>standard_deviation\<close> that returns 0.0 under
  \<open>population and n == 0\<close> is never taken: the empty check before it has rejected the
  empty data, so there is at least one value whenever a later guard is evaluated.
\<close>

theorem sd_zero_branch_unreachable:
  "sd_branch_taken s population \<noteq> SD_zero \<and>
   (sd_branch_taken s population \<noteq> SD_empty \<longrightarrow> 1 \<le> length (data s))"
  by (cases "data s") (simp_all add: sd_branch_taken_def)

theorem sd_zero_branch_unreachable_witness:
  "sd_branch_taken (init (Some [42])) True = SD_compute \<and>
   SD_compute \<noteq> SD_zero \<and> SD_compute \<noteq> SD_empty \<and>
   1 \<le> length (data (init (Some [42]))) \<and>
   sd_branch_taken (init None) True = SD_empty \<and> SD_empty \<noteq> SD_zero"
proof -
  have b: "sd_branch_taken (init (Some [42])) True = SD_compute"
    "sd_branch_taken (init None) True = SD_empty"
    by (simp_all add: sd_branch_taken_def init_def)
  from sd_zero_branch_unreachable [of "init (Some [42])" True]
  have "SD_compute \<noteq> SD_zero" "1 \<le> length (data (init (Some [42])))"
    unfolding b by simp_all
  moreover from sd_zero_branch_unreachable [of "init None" True]
  have "SD_empty \<noteq> SD_zero" unfolding b by simp
  ultimately show ?thesis using b by simp
qed




text \<open>
  Counterexample to claim C2 as it is stated. The exception raised on empty data and
  the one raised by the sample standard deviation of the single value 42 have the
  same class, \<open>ValueError\<close>: the source has no exception class of its own, so the two
  kinds of error are one error type.
\<close>

theorem error_kinds_counterexample:
  "fst (mean (init None)) = Inl (ValueError ''Cannot calculate mean: data is empty'') \<and>
   fst (standard_deviation (init None) False) =
     Inl (ValueError ''Cannot calculate standard deviation: data is empty'') \<and>
   fst (standard_deviation (init (Some [42])) False) =
     Inl (ValueError
       ''Cannot calculate sample standard deviation with less than 2 data points'') \<and>
   exc_type (projl (fst (standard_deviation (init None) False))) =
     exc_type (projl (fst (standard_deviation (init (Some [42])) False)))"
  by (simp add: model_defs)

text \<open>
  Claim C2, amended. In every state a calculator can reach, each reader raises a
  \<open>ValueError\<close> on empty data, and the sample standard deviation of exactly one value
  raises a \<open>ValueError\<close> too. The two are of one exception class; what tells them
  apart is the message.
\<close>

theorem error_kinds:
  "(data (run d calls) = [] \<longrightarrow>
      fst (mean (run d calls)) = Inl (ValueError ''Cannot calculate mean: data is empty'') \<and>
      fst (median (run d calls)) =
        Inl (ValueError ''Cannot calculate median: data is empty'') \<and>
      fst (mode (run d calls)) = Inl (ValueError ''Cannot calculate mode: data is empty'') \<and>
      fst (standard_deviation (run d calls) population) =
        Inl (ValueError ''Cannot calculate standard deviation: data is empty'') \<and>
      fst (range_calc (run d calls)) =
        Inl (ValueError ''Cannot calculate range: data is empty'')) \<and>
   (length (data (run d calls)) = 1 \<longrightarrow>
      fst (standard_deviation (run d calls) False) =
        Inl (ValueError
          ''Cannot calculate sample standard deviation with less than 2 data points'')) \<and>
   exc_type (ValueError ''Cannot calculate standard deviation: data is empty'') =
     exc_type (ValueError
       ''Cannot calculate sample standard deviation with less than 2 data points'') \<and>
   ''Cannot calculate standard deviation: data is empty'' \<noteq>
     ''Cannot calculate sample standard deviation with less than 2 data points''"
proof -
  have one: "length (data (run d calls)) = 1 \<Longrightarrow> data (run d calls) \<noteq> []" by auto
  show ?thesis
    using one
    by (simp add: mean_fst [OF consistent_run] median_fst [OF consistent_run]
        mode_fst [OF consistent_run] standard_deviation_eq [OF consistent_run]
        range_eq [OF consistent_run])
qed

theorem error_kinds_witness:
  "data (run (Some [1, 2]) [Mean, ClearData]) = [] \<and>
   fst (mean (run (Some [1, 2]) [Mean, ClearData])) =
     Inl (ValueError ''Cannot calculate mean: data is empty'') \<and>
   fst (standard_deviation (run (Some [1, 2]) [Mean, ClearData]) True) =
     Inl (ValueError ''Cannot calculate standard deviation: data is empty'') \<and>
   length (data (run None [AddValue 42, Mean])) = 1 \<and>
   fst (standard_deviation (run None [AddValue 42, Mean]) False) =
     Inl (ValueError
       ''Cannot calculate sample standard deviation with less than 2 data points'')"
proof -
  have d1: "data (run (Some [1, 2]) [Mean, ClearData]) = []"
    by (simp add: model_defs)
  have d2: "length (data (run None [AddValue 42, Mean])) = 1"
    by (simp add: model_defs)
  note t1 = error_kinds [of "Some [1, 2]" "[Mean, ClearData]" True]
  note t2 = error_kinds [of None "[AddValue 42, Mean]" False]
  from t1 d1 have a: "fst (mean (run (Some [1, 2]) [Mean, ClearData])) =
     Inl (ValueError ''Cannot calculate mean: data is empty'')"
    "fst (standard_deviation (run (Some [1, 2]) [Mean, ClearData]) True) =
     Inl (ValueError ''Cannot calculate standard deviation: data is empty'')"
    by blast+
  from t2 d2 have b: "fst (standard_deviation (run None [AddValue 42, Mean]) False) =
     Inl (ValueError
       ''Cannot calculate sample standard deviation with less than 2 data points'')"
    by blast
  from d1 d2 a b show ?thesis by blast
qed



end
